theory Spec2Isabelle
  imports Main "HOL-Library.Word"
begin

section \<open>Strings\<close>

text \<open>
  A Python \<open>str\<close> is a sequence of Unicode code points. The program only compares
  strings, tests prefixes, trims whitespace and lower-cases, so a string is modelled as
  the list of its code points. The literals of \<open>app.py\<close> that matter are ASCII; \<open>lit\<close>
  turns an ASCII literal into its code points.
\<close>

type_synonym codepoint = nat
type_synonym str = "codepoint list"
type_synonym byte = "8 word"

definition lit :: "string \<Rightarrow> str" where
  "lit cs = map of_char cs"

text \<open>
  \<open>str.isspace\<close> on one code point: the table of CPython's \<open>_PyUnicode_IsWhitespace\<close>
  (U+0009..U+000D, U+001C..U+0020, U+0085, U+00A0, U+1680, U+2000..U+200A, U+2028,
  U+2029, U+202F, U+205F, U+3000).
\<close>

definition isspace :: "codepoint \<Rightarrow> bool" where
  "isspace c =
     ((9 \<le> c \<and> c \<le> 13) \<or> (28 \<le> c \<and> c \<le> 32) \<or> c = 133 \<or> c = 160 \<or> c = 5760 \<or>
      (8192 \<le> c \<and> c \<le> 8202) \<or> c = 8232 \<or> c = 8233 \<or> c = 8239 \<or> c = 8287 \<or>
      c = 12288)"

text \<open>\<open>s.strip()\<close>: drop the whitespace at both ends.\<close>

definition strip :: "str \<Rightarrow> str" where
  "strip s = rev (dropWhile isspace (rev (dropWhile isspace s)))"

text \<open>\<open>s.startswith(p)\<close>.\<close>

definition startswith :: "str \<Rightarrow> str \<Rightarrow> bool" where
  "startswith s p = (take (length p) s = p)"

section \<open>The outside world\<close>

text \<open>
  A raised exception, by what the handlers of \<open>app.py\<close> can tell apart.
  \<open>Exception m\<close> is an instance of Python's class \<open>Exception\<close> (any subclass) with
  \<open>str(e) = m\<close>: \<open>except Exception as e\<close> (lines 32, 57, 69) catches it and uses only
  its message. \<open>BaseException m\<close> is an exception that does not derive from
  \<open>Exception\<close> (\<open>SystemExit\<close>, \<open>KeyboardInterrupt\<close>, \<open>GeneratorExit\<close>, a
  library's own subclass of \<open>BaseException\<close>): \<open>except Exception\<close> lets it pass, and
  only the bare \<open>except:\<close> of line 41 catches it.
\<close>

datatype exn = Exception (message: str) | BaseException (message: str)

text \<open>
  What the program does to the world, in order. \<open>Translator_invoked\<close> records an entry
  into \<open>translate_text\<close> (it has a path that touches nothing outside); the other events
  are the calls that leave the program.
\<close>

datatype event =
    Store_upload "byte list"
  | Whisper str
  | Langdetect str
  | Translator_invoked str str
  | Google_translate str str
  | Sleep nat
  | Gtts str str

text \<open>
  The third-party services and library tables the program calls, as parameters. \<open>'w\<close>
  is the state of the world outside the program (network, remote services, file system,
  clock): a call may read and change it, so two calls with the same arguments may answer
  differently. A call answers a string, as the libraries declare, or raises; a call
  that raises is \<open>Inl\<close> of the exception.

  \<^item> \<open>store_upload data\<close>: lines 79-81, \<open>NamedTemporaryFile(delete=False, suffix=".wav")\<close>
    and \<open>tmp_file.write(audio_file.read())\<close>; answers the temporary file's name.
  \<^item> \<open>whisper path\<close>: lines 26-31, \<open>open(audio_path, "rb")\<close> and
    \<open>client.audio.transcriptions.create(...)\<close>; answers \<open>transcription.text\<close>.
  \<^item> \<open>langdetect text\<close>: \<open>langdetect.detect(text)\<close>.
  \<^item> \<open>google_translator dest\<close>: the constructor
    \<open>GoogleTranslator(source="auto", target=dest)\<close>, which refuses a target it does not
    support; \<open>None\<close> when it accepts.
  \<^item> \<open>google_translate dest text\<close>: \<open>translator.translate(text)\<close> on that translator.
  \<^item> \<open>sleep n\<close>: \<open>time.sleep(n)\<close>; the world moves on meanwhile. With the constant
    argument of line 54 it raises nothing of its own.
  \<^item> \<open>gtts text lang\<close>: lines 65-68, \<open>gTTS(text=text, lang=lang)\<close>, a fresh
    \<open>.mp3\<close> temporary file and \<open>tts.save\<close>; answers the file's name.
  \<^item> \<open>lower\<close>: \<open>str.lower\<close>, the Unicode lower-casing table.
\<close>

record 'w env =
  store_upload :: "byte list \<Rightarrow> 'w \<Rightarrow> (exn + str) \<times> 'w"
  whisper :: "str \<Rightarrow> 'w \<Rightarrow> (exn + str) \<times> 'w"
  langdetect :: "str \<Rightarrow> 'w \<Rightarrow> (exn + str) \<times> 'w"
  google_translator :: "str \<Rightarrow> exn option"
  google_translate :: "str \<Rightarrow> str \<Rightarrow> 'w \<Rightarrow> (exn + str) \<times> 'w"
  sleep :: "nat \<Rightarrow> 'w \<Rightarrow> 'w"
  gtts :: "str \<Rightarrow> str \<Rightarrow> 'w \<Rightarrow> (exn + str) \<times> 'w"
  lower :: "str \<Rightarrow> str"

record 'w state =
  world :: 'w
  trace :: "event list"

text \<open>Run one outside call: the world changes and the event is appended to the trace.\<close>

definition perform :: "event \<Rightarrow> ('w \<Rightarrow> 'a \<times> 'w) \<Rightarrow> 'w state \<Rightarrow> 'a \<times> 'w state" where
  "perform ev f s =
     (case f (world s) of (r, w') \<Rightarrow> (r, \<lparr>world = w', trace = trace s @ [ev]\<rparr>))"

definition log_event :: "event \<Rightarrow> 'w state \<Rightarrow> 'w state" where
  "log_event ev s = \<lparr>world = world s, trace = trace s @ [ev]\<rparr>"

definition perform_sleep :: "'w env \<Rightarrow> nat \<Rightarrow> 'w state \<Rightarrow> 'w state" where
  "perform_sleep env n s = \<lparr>world = sleep env n (world s), trace = trace s @ [Sleep n]\<rparr>"

section \<open>The components of \<open>app.py\<close>\<close>

definition TRANSCRIPTION_ERROR :: str where
  "TRANSCRIPTION_ERROR = lit ''[Transcription error]''"

definition TRANSLATION_ERROR :: str where
  "TRANSLATION_ERROR = lit ''[Translation error]''"

definition TTS_ERROR :: str where
  "TTS_ERROR = lit ''[TTS error]''"

text \<open>The f-string \<open>f"<tag> {e}"\<close>: the tag, one space, \<open>str(e)\<close>.\<close>

definition sentinel :: "str \<Rightarrow> exn \<Rightarrow> str" where
  "sentinel tag e = tag @ lit '' '' @ message e"

text \<open>
  The handler \<open>except Exception as e: return f"<tag> {e}"\<close> on an exception raised
  inside its \<open>try\<close>: an \<open>Exception\<close> becomes the returned sentinel (\<open>Inr\<close>), anything
  else leaves the function (\<open>Inl\<close>).
\<close>

definition except_Exception :: "str \<Rightarrow> exn \<Rightarrow> exn + str" where
  "except_Exception tag e =
     (case e of Exception m \<Rightarrow> Inr (sentinel tag e) | BaseException m \<Rightarrow> Inl e)"

text \<open>
  \<open>transcribe_audio\<close>, lines 23-33: the returned string, or (\<open>Inl\<close>) the exception
  that line 32 does not catch.
\<close>

definition transcribe_audio ::
  "'w env \<Rightarrow> str \<Rightarrow> 'w state \<Rightarrow> (exn + str) \<times> 'w state" where
  "transcribe_audio env audio_path s =
     (case perform (Whisper audio_path) (whisper env audio_path) s of
        (Inr text, s') \<Rightarrow> (Inr (strip text), s')
      | (Inl e, s') \<Rightarrow> (except_Exception TRANSCRIPTION_ERROR e, s'))"

text \<open>
  \<open>detect_language\<close>, lines 38-42: the bare \<open>except\<close> catches every exception and
  answers \<open>"unknown"\<close>.
\<close>

definition detect_language :: "'w env \<Rightarrow> str \<Rightarrow> 'w state \<Rightarrow> str \<times> 'w state" where
  "detect_language env text s =
     (case perform (Langdetect text) (langdetect env text) s of
        (Inr code, s') \<Rightarrow> (code, s')
      | (Inl e, s') \<Rightarrow> (lit ''unknown'', s'))"

text \<open>
  \<open>translate_text\<close>, lines 47-58. The test of line 53 compares the two strings trimmed
  and lower-cased. The constructor and both remote calls stand inside the \<open>try\<close> of
  line 50.
\<close>

definition same_ignoring_case :: "'w env \<Rightarrow> str \<Rightarrow> str \<Rightarrow> bool" where
  "same_ignoring_case env a b = (lower env (strip a) = lower env (strip b))"

definition EMPTY_INPUT :: str where
  "EMPTY_INPUT = lit ''[Translation error] Empty input text''"

definition translate_text ::
  "'w env \<Rightarrow> str \<Rightarrow> str \<Rightarrow> 'w state \<Rightarrow> (exn + str) \<times> 'w state" where
  "translate_text env text dest_lang s0 =
     (let s = log_event (Translator_invoked text dest_lang) s0 in
      if strip text = [] then (Inr EMPTY_INPUT, s)
      else
        (case google_translator env dest_lang of
           Some e \<Rightarrow> (except_Exception TRANSLATION_ERROR e, s)
         | None \<Rightarrow>
             (case perform (Google_translate dest_lang text)
                     (google_translate env dest_lang text) s of
                (Inl e, s1) \<Rightarrow> (except_Exception TRANSLATION_ERROR e, s1)
              | (Inr translated, s1) \<Rightarrow>
                  if same_ignoring_case env translated text then
                    (case perform (Google_translate dest_lang text)
                            (google_translate env dest_lang text)
                            (perform_sleep env 1 s1) of
                       (Inl e, s2) \<Rightarrow> (except_Exception TRANSLATION_ERROR e, s2)
                     | (Inr translated', s2) \<Rightarrow> (Inr translated', s2))
                  else (Inr translated, s1))))"

text \<open>
  \<open>text_to_speech\<close>, lines 63-70: the file's name, or the sentinel where a name was
  expected.
\<close>

definition text_to_speech ::
  "'w env \<Rightarrow> str \<Rightarrow> str \<Rightarrow> 'w state \<Rightarrow> (exn + str) \<times> 'w state" where
  "text_to_speech env text lang s =
     (case perform (Gtts text lang) (gtts env text lang) s of
        (Inr name, s') \<Rightarrow> (Inr name, s')
      | (Inl e, s') \<Rightarrow> (except_Exception TTS_ERROR e, s'))"

section \<open>The orchestrator\<close>

text \<open>
  The result of \<open>pipeline_translate\<close>: the 4-tuple \<open>(transcribed, detected, translated,
  audio_output)\<close>, \<open>None\<close> for Python's \<open>None\<close>.
\<close>

type_synonym result = "str \<times> str option \<times> str option \<times> str option"

text \<open>Lines 88-89: the rebinding of \<open>target_lang_hint\<close>.\<close>

definition resolve_target :: "str \<Rightarrow> str \<Rightarrow> str" where
  "resolve_target target_lang_hint detected =
     (if target_lang_hint = lit ''auto''
      then (if detected = lit ''en'' then lit ''ur'' else lit ''en'')
      else target_lang_hint)"

text \<open>
  Lines 91-102: translation, synthesis and the returns, with \<open>target\<close> the value of
  \<open>target_lang_hint\<close> after line 89. Neither call stands in a \<open>try\<close> here: an
  exception that leaves \<open>translate_text\<close> or \<open>text_to_speech\<close> leaves the
  orchestrator (\<open>Inl\<close>).
\<close>

definition translate_and_speak ::
  "'w env \<Rightarrow> str \<Rightarrow> str \<Rightarrow> str \<Rightarrow> 'w state \<Rightarrow> (exn + result) \<times> 'w state" where
  "translate_and_speak env transcribed detected target s =
     (case (if target \<noteq> detected then translate_text env transcribed target s
            else (Inr transcribed, s)) of
        (Inl e, s1) \<Rightarrow> (Inl e, s1)
      | (Inr translated, s1) \<Rightarrow>
          if startswith translated TRANSLATION_ERROR
          then (Inr (transcribed, Some detected, Some translated, None), s1)
          else
            (case text_to_speech env translated target s1 of
               (Inl e, s2) \<Rightarrow> (Inl e, s2)
             | (Inr audio_output, s2) \<Rightarrow>
                 if startswith audio_output TTS_ERROR
                 then (Inr (transcribed, Some detected, Some translated, None), s2)
                 else (Inr (transcribed, Some detected, Some translated, Some audio_output),
                       s2)))"

text \<open>
  \<open>pipeline_translate\<close>, lines 75-102. \<open>audio_file\<close> is \<open>None\<close> when nothing was
  uploaded. Writing the upload to the temporary file is outside every \<open>try\<close>: an
  exception there leaves the function (\<open>Inl\<close>), as does one that leaves
  \<open>transcribe_audio\<close>.
\<close>

definition NO_AUDIO :: str where
  "NO_AUDIO = lit ''[Error] No audio input''"

definition pipeline_translate ::
  "'w env \<Rightarrow> byte list option \<Rightarrow> str \<Rightarrow> 'w state \<Rightarrow> (exn + result) \<times> 'w state" where
  "pipeline_translate env audio_file target_lang_hint s =
     (case audio_file of
        None \<Rightarrow> (Inr (NO_AUDIO, None, None, None), s)
      | Some data \<Rightarrow>
          (case perform (Store_upload data) (store_upload env data) s of
             (Inl e, s1) \<Rightarrow> (Inl e, s1)
           | (Inr tmp_path, s1) \<Rightarrow>
               (case transcribe_audio env tmp_path s1 of
                  (Inl e, s2) \<Rightarrow> (Inl e, s2)
                | (Inr transcribed, s2) \<Rightarrow>
                    if startswith transcribed TRANSCRIPTION_ERROR
                    then (Inr (transcribed, None, None, None), s2)
                    else
                      (case detect_language env transcribed s2 of
                         (detected, s3) \<Rightarrow>
                           translate_and_speak env transcribed detected
                             (resolve_target target_lang_hint detected) s3))))"

section \<open>Reading results and traces\<close>

text \<open>A string with no whitespace at either end.\<close>

definition trimmed :: "str \<Rightarrow> bool" where
  "trimmed s = (case s of [] \<Rightarrow> True | c # cs \<Rightarrow> \<not> isspace c \<and> \<not> isspace (last s))"

text \<open>The events that only \<open>translate_text\<close> produces.\<close>

fun translator_event :: "event \<Rightarrow> bool" where
  "translator_event (Translator_invoked text dest) = True"
| "translator_event (Google_translate dest text) = True"
| "translator_event (Sleep n) = True"
| "translator_event ev = False"

text \<open>Python's \<open>x in result\<close>: \<open>x\<close> is one of the four elements of the tuple.\<close>

definition in_tuple :: "str \<Rightarrow> result \<Rightarrow> bool" where
  "in_tuple x r = (case r of (a, b, c, d) \<Rightarrow> x = a \<or> b = Some x \<or> c = Some x \<or> d = Some x)"

section \<open>A scripted world for concrete runs\<close>

text \<open>
  A world whose services answer from a script: the upload is stored under a fixed name,
  the speech service answers \<open>heard\<close>, the detector raises on a text without characters
  and answers \<open>code\<close> otherwise, the translator accepts the six language codes of the selection box
  and its \<open>n\<close>-th call answers the \<open>n\<close>-th entry of \<open>answers\<close>, the synthesiser
  answers \<open>spoken\<close>. The world state counts the translation calls made so far;
  lower-casing is the ASCII one.
\<close>

definition ascii_lower :: "str \<Rightarrow> str" where
  "ascii_lower s = map (\<lambda>c. if 65 \<le> c \<and> c \<le> 90 then c + 32 else c) s"

definition scripted ::
  "(exn + str) \<Rightarrow> str \<Rightarrow> (exn + str) list \<Rightarrow> (exn + str) \<Rightarrow> nat env" where
  "scripted heard code answers spoken =
     \<lparr>store_upload = (\<lambda>data w. (Inr (lit ''/tmp/tmpk3.wav''), w)),
      whisper = (\<lambda>path w. (heard, w)),
      langdetect = (\<lambda>text w.
        (if text = [] then Inl (Exception (lit ''No features in text.'')) else Inr code, w)),
      google_translator = (\<lambda>dest.
        if dest \<in> set (map lit [''en'', ''ur'', ''fr'', ''es'', ''de'', ''ar'']) then None
        else Some (Exception (lit ''No support for the provided language.''))),
      google_translate = (\<lambda>dest text w.
        (case drop w answers of
           [] \<Rightarrow> Inl (Exception (lit ''Request exception''))
         | a # rest \<Rightarrow> a, Suc w)),
      sleep = (\<lambda>n w. w),
      gtts = (\<lambda>text lang w. (spoken, w)),
      lower = ascii_lower\<rparr>"

definition start :: "nat state" where
  "start = \<lparr>world = 0, trace = []\<rparr>"

text \<open>
  The runs used below. \<open>hello\<close>: English speech; the translator first echoes the
  input, then answers in Urdu; synthesis succeeds. \<open>offline\<close>: the speech service
  raises. \<open>mute\<close>: as \<open>hello\<close> with a translator that answers at once and a
  synthesiser that raises. \<open>silence\<close>: the speech service hears only whitespace.
  \<open>boom\<close>: the translator raises with the message \<open>boom\<close>. \<open>echo\<close>: the speaker
  says \<open>[TTS error] boom\<close> and the synthesiser raises with the message \<open>boom\<close>.
  \<open>cancelled\<close>: the speech service raises an exception that is not an \<open>Exception\<close>.
\<close>

definition upload :: "byte list" where
  "upload = [82, 73, 70, 70]"

definition urdu :: str where
  "urdu = [1729, 1740, 1604, 1608, 32, 1583, 1606, 1740, 1575]"

definition hello :: "nat env" where
  "hello = scripted (Inr (lit '' Hello world '')) (lit ''en'')
             [Inr (lit ''Hello world''), Inr urdu] (Inr (lit ''/tmp/tmpq7.mp3''))"

definition offline :: "nat env" where
  "offline = scripted (Inl (Exception (lit ''Connection error.''))) (lit ''en'')
             [Inr urdu] (Inr (lit ''/tmp/tmpq7.mp3''))"

definition mute :: "nat env" where
  "mute = scripted (Inr (lit '' Hello world '')) (lit ''en'')
             [Inr urdu] (Inl (Exception (lit ''Failed to connect'')))"

definition silence :: "nat env" where
  "silence = scripted (Inr [32, 9, 10]) (lit ''en'') [Inr urdu] (Inr (lit ''/tmp/tmpq7.mp3''))"


definition echo :: "nat env" where
  "echo = scripted (Inr (lit ''[TTS error] boom'')) (lit ''en'')
             [Inr urdu] (Inl (Exception (lit ''boom'')))"

definition cancelled :: "nat env" where
  "cancelled = scripted (Inl (BaseException (lit ''cancelled''))) (lit ''en'')
             [Inr urdu] (Inr (lit ''/tmp/tmpq7.mp3''))"

section \<open>Facts about strings\<close>

lemma lit_eq_iff: "lit a = lit b \<longleftrightarrow> a = b"
  unfolding lit_def by (simp add: inj_def)

lemma lit_eq_Nil_iff: "lit a = [] \<longleftrightarrow> a = []"
  by (simp add: lit_def)

lemma strip_eq_Nil_iff: "strip s = [] \<longleftrightarrow> list_all isspace s"
proof
  assume "strip s = []"
  then have "dropWhile isspace (rev (dropWhile isspace s)) = []" by (simp add: strip_def)
  then have "\<forall>x\<in>set (dropWhile isspace s). isspace x"
    by simp
  moreover have "dropWhile isspace s = [] \<or> \<not> isspace (hd (dropWhile isspace s))"
    using hd_dropWhile by blast
  ultimately have "dropWhile isspace s = []"
    by (metis hd_in_set)
  then show "list_all isspace s" by (simp add: list_all_iff)
next
  assume "list_all isspace s"
  then have "dropWhile isspace s = []" by (simp add: list_all_iff)
  then show "strip s = []" unfolding strip_def by (simp del: dropWhile_eq_Nil_conv)
qed

text \<open>\<open>strip\<close> removes whitespace only, and only at the two ends.\<close>

lemma strip_decomp:
  "\<exists>a b. s = a @ strip s @ b \<and> list_all isspace a \<and> list_all isspace b"
proof -
  let ?t = "dropWhile isspace s"
  have 1: "s = takeWhile isspace s @ ?t" by simp
  have 2: "rev ?t = takeWhile isspace (rev ?t) @ dropWhile isspace (rev ?t)" by simp
  have "?t = rev (dropWhile isspace (rev ?t)) @ rev (takeWhile isspace (rev ?t))"
    by (metis 2 rev_append rev_rev_ident)
  then have 3: "?t = strip s @ rev (takeWhile isspace (rev ?t))" by (simp add: strip_def)
  have 4: "list_all isspace (takeWhile isspace s)"
    by (simp add: list_all_iff) (meson set_takeWhileD)
  have 5: "list_all isspace (rev (takeWhile isspace (rev ?t)))"
    by (simp add: list_all_iff) (meson set_takeWhileD)
  from 1 3 have "s = takeWhile isspace s @ strip s @ rev (takeWhile isspace (rev ?t))"
    by metis
  with 4 5 show ?thesis by blast
qed

lemma trimmed_strip: "trimmed (strip s)"
proof (cases "strip s")
  case Nil
  then show ?thesis by (simp add: trimmed_def)
next
  case (Cons c cs)
  let ?t = "dropWhile isspace s"
  let ?u = "dropWhile isspace (rev ?t)"
  have u: "?u \<noteq> []" using Cons by (auto simp add: strip_def)
  then have a: "\<not> isspace (hd ?u)" using hd_dropWhile by blast
  have "last (strip s) = hd ?u" using u by (simp add: strip_def last_rev)
  with a have l: "\<not> isspace (last (strip s))" by simp
  obtain a where ab: "rev ?t = a @ ?u" by (metis takeWhile_dropWhile_id)
  then have "?t = rev ?u @ rev a" by (metis rev_append rev_rev_ident)
  then have "?t = strip s @ rev a" by (simp add: strip_def)
  then have "hd ?t = c" using Cons by (metis hd_append2 list.sel(1) list.distinct(1))
  moreover have "?t \<noteq> []"
  proof
    assume "?t = []"
    then have "?u = []" by (simp del: dropWhile_eq_Nil_conv)
    with u show False by contradiction
  qed
  ultimately have "\<not> isspace c" using hd_dropWhile by blast
  with l Cons show ?thesis by (simp add: trimmed_def)
qed


section \<open>What each component adds to the trace\<close>

lemma perform_trace: "perform ev f s = (r, s') \<Longrightarrow> trace s' = trace s @ [ev]"
  by (auto simp add: perform_def split: prod.splits)

lemma transcribe_audio_trace:
  "transcribe_audio env p s = (r, s') \<Longrightarrow> trace s' = trace s @ [Whisper p]"
  by (auto simp add: transcribe_audio_def perform_def split: prod.splits sum.splits)

lemma detect_language_trace:
  "detect_language env t s = (d, s') \<Longrightarrow> trace s' = trace s @ [Langdetect t]"
  by (auto simp add: detect_language_def perform_def split: prod.splits sum.splits)

lemma text_to_speech_trace:
  "text_to_speech env t l s = (r, s') \<Longrightarrow> trace s' = trace s @ [Gtts t l]"
  by (auto simp add: text_to_speech_def perform_def split: prod.splits sum.splits)

lemma translate_text_trace:
  "translate_text env t d s = (r, s') \<Longrightarrow>
     \<exists>es. trace s' = trace s @ Translator_invoked t d # es"
  by (auto simp add: translate_text_def perform_def log_event_def perform_sleep_def Let_def
      split: prod.splits sum.splits option.splits if_splits)

text \<open>What the handler lets through is not an \<open>Exception\<close>.\<close>

lemma except_Exception_Inl:
  "except_Exception tag e = Inl e' \<Longrightarrow> \<exists>m. e = BaseException m \<and> e' = e"
  by (cases e) (auto simp add: except_Exception_def)

text \<open>Another synthesiser leaves the stages before synthesis as they are.\<close>

lemma other_gtts:
  "store_upload (env\<lparr>gtts := g\<rparr>) = store_upload env"
  "transcribe_audio (env\<lparr>gtts := g\<rparr>) = transcribe_audio env"
  "detect_language (env\<lparr>gtts := g\<rparr>) = detect_language env"
  "translate_text (env\<lparr>gtts := g\<rparr>) = translate_text env"
  by (simp_all add: fun_eq_iff transcribe_audio_def detect_language_def translate_text_def
      same_ignoring_case_def perform_sleep_def Let_def
      cong: if_cong option.case_cong sum.case_cong prod.case_cong)

section \<open>The scripted runs, stage by stage\<close>

lemma scripted_store:
  "perform (Store_upload d) (store_upload (scripted h c a sp) d) s =
     (Inr (lit ''/tmp/tmpk3.wav''), \<lparr>world = world s, trace = trace s @ [Store_upload d]\<rparr>)"
  by (simp add: scripted_def perform_def)

lemma scripted_transcribe:
  "transcribe_audio (scripted (Inr h) c a sp) p s =
     (Inr (strip h), \<lparr>world = world s, trace = trace s @ [Whisper p]\<rparr>)"
  by (simp add: scripted_def transcribe_audio_def perform_def)

lemma scripted_transcribe_raises:
  "transcribe_audio (scripted (Inl e) c a sp) p s =
     (except_Exception TRANSCRIPTION_ERROR e,
      \<lparr>world = world s, trace = trace s @ [Whisper p]\<rparr>)"
  by (simp add: scripted_def transcribe_audio_def perform_def)

lemma scripted_detect:
  "t \<noteq> [] \<Longrightarrow> detect_language (scripted h c a sp) t s =
     (c, \<lparr>world = world s, trace = trace s @ [Langdetect t]\<rparr>)"
  by (simp add: scripted_def detect_language_def perform_def)

lemma scripted_speak:
  "text_to_speech (scripted h c a (Inr name)) t l s =
     (Inr name, \<lparr>world = world s, trace = trace s @ [Gtts t l]\<rparr>)"
  by (simp add: scripted_def text_to_speech_def perform_def)

lemma scripted_speak_raises:
  "text_to_speech (scripted h c a (Inl e)) t l s =
     (except_Exception TTS_ERROR e, \<lparr>world = world s, trace = trace s @ [Gtts t l]\<rparr>)"
  by (simp add: scripted_def text_to_speech_def perform_def)

lemma strip_heard: "strip (lit '' Hello world '') = lit ''Hello world''"
  by (simp add: strip_def lit_def isspace_def)

lemma strip_hello: "strip (lit ''Hello world'') = lit ''Hello world''"
  by (simp add: strip_def lit_def isspace_def)

lemma hello_not_sentinel:
  "\<not> startswith (lit ''Hello world'') (lit ''[Transcription error]'')"
  "\<not> startswith (lit ''Hello world'') (lit ''[Translation error]'')"
  by (simp_all add: startswith_def lit_def)

lemma urdu_not_sentinel: "\<not> startswith urdu (lit ''[Translation error]'')"
  by (simp add: startswith_def lit_def urdu_def)

lemma mp3_not_sentinel: "\<not> startswith (lit ''/tmp/tmpq7.mp3'') (lit ''[TTS error]'')"
  by (simp add: startswith_def lit_def)

lemma hello_stages:
  "perform (Store_upload upload) (store_upload hello upload) start =
      (Inr (lit ''/tmp/tmpk3.wav''), \<lparr>world = 0, trace = [Store_upload upload]\<rparr>)"
  "transcribe_audio hello (lit ''/tmp/tmpk3.wav'') \<lparr>world = 0, trace = [Store_upload upload]\<rparr> =
      (Inr (lit ''Hello world''),
       \<lparr>world = 0, trace = [Store_upload upload, Whisper (lit ''/tmp/tmpk3.wav'')]\<rparr>)"
  "detect_language hello (lit ''Hello world'')
       \<lparr>world = 0, trace = [Store_upload upload, Whisper (lit ''/tmp/tmpk3.wav'')]\<rparr> =
      (lit ''en'',
       \<lparr>world = 0, trace = [Store_upload upload, Whisper (lit ''/tmp/tmpk3.wav''),
                              Langdetect (lit ''Hello world'')]\<rparr>)"
  by (simp_all add: hello_def scripted_store scripted_transcribe scripted_detect start_def
      strip_heard lit_eq_Nil_iff)

lemma hello_translate:
  "translate_text hello (lit ''Hello world'') (lit ''ur'') \<lparr>world = 0, trace = tr\<rparr> =
     (Inr urdu,
      \<lparr>world = 2,
       trace = tr @ [Translator_invoked (lit ''Hello world'') (lit ''ur''),
                     Google_translate (lit ''ur'') (lit ''Hello world''), Sleep 1,
                     Google_translate (lit ''ur'') (lit ''Hello world'')]\<rparr>)"
  by (simp add: translate_text_def hello_def scripted_def perform_def perform_sleep_def
      log_event_def same_ignoring_case_def strip_hello lit_eq_iff lit_eq_Nil_iff
      numeral_2_eq_2)

lemma hello_pipeline:
  "pipeline_translate hello (Some upload) (lit ''auto'') start =
     (Inr (lit ''Hello world'', Some (lit ''en''), Some urdu, Some (lit ''/tmp/tmpq7.mp3'')),
      \<lparr>world = 2,
       trace = [Store_upload upload, Whisper (lit ''/tmp/tmpk3.wav''),
                Langdetect (lit ''Hello world''),
                Translator_invoked (lit ''Hello world'') (lit ''ur''),
                Google_translate (lit ''ur'') (lit ''Hello world''), Sleep 1,
                Google_translate (lit ''ur'') (lit ''Hello world''),
                Gtts urdu (lit ''ur'')]\<rparr>)"
proof -
  have r: "resolve_target (lit ''auto'') (lit ''en'') = lit ''ur''"
    by (simp add: resolve_target_def)
  have ne: "lit ''ur'' \<noteq> lit ''en''" by (simp add: lit_eq_iff)
  have sp: "text_to_speech hello urdu (lit ''ur'') s =
     (Inr (lit ''/tmp/tmpq7.mp3''),
      \<lparr>world = world s, trace = trace s @ [Gtts urdu (lit ''ur'')]\<rparr>)"
    for s by (simp add: hello_def scripted_speak)
  show ?thesis
    using ne
    by (simp add: pipeline_translate_def hello_stages TRANSCRIPTION_ERROR_def
        hello_not_sentinel r translate_and_speak_def hello_translate TRANSLATION_ERROR_def
        urdu_not_sentinel sp TTS_ERROR_def mp3_not_sentinel)
qed

lemma mute_stages:
  "perform (Store_upload upload) (store_upload mute upload) start =
      (Inr (lit ''/tmp/tmpk3.wav''), \<lparr>world = 0, trace = [Store_upload upload]\<rparr>)"
  "transcribe_audio mute (lit ''/tmp/tmpk3.wav'') \<lparr>world = 0, trace = [Store_upload upload]\<rparr> =
      (Inr (lit ''Hello world''),
       \<lparr>world = 0, trace = [Store_upload upload, Whisper (lit ''/tmp/tmpk3.wav'')]\<rparr>)"
  "detect_language mute (lit ''Hello world'')
       \<lparr>world = 0, trace = [Store_upload upload, Whisper (lit ''/tmp/tmpk3.wav'')]\<rparr> =
      (lit ''en'',
       \<lparr>world = 0, trace = [Store_upload upload, Whisper (lit ''/tmp/tmpk3.wav''),
                              Langdetect (lit ''Hello world'')]\<rparr>)"
  by (simp_all add: mute_def scripted_store scripted_transcribe scripted_detect start_def
      strip_heard lit_eq_Nil_iff)

lemma mute_translate:
  "translate_text mute (lit ''Hello world'') (lit ''ur'') \<lparr>world = 0, trace = tr\<rparr> =
     (Inr urdu,
      \<lparr>world = 1,
       trace = tr @ [Translator_invoked (lit ''Hello world'') (lit ''ur''),
                     Google_translate (lit ''ur'') (lit ''Hello world'')]\<rparr>)"
proof -
  have d: "\<not> same_ignoring_case mute urdu (lit ''Hello world'')"
    by (simp add: same_ignoring_case_def mute_def scripted_def ascii_lower_def strip_def
        isspace_def urdu_def lit_def)
  then show ?thesis
    by (simp add: translate_text_def log_event_def strip_hello lit_eq_Nil_iff)
      (simp add: mute_def scripted_def perform_def lit_eq_iff)
qed

lemma strip_echo: "strip (lit ''[TTS error] boom'') = lit ''[TTS error] boom''"
  by (simp add: strip_def lit_def isspace_def)

lemma echo_stages:
  "perform (Store_upload upload) (store_upload echo upload) start =
      (Inr (lit ''/tmp/tmpk3.wav''), \<lparr>world = 0, trace = [Store_upload upload]\<rparr>)"
  "transcribe_audio echo (lit ''/tmp/tmpk3.wav'') \<lparr>world = 0, trace = [Store_upload upload]\<rparr> =
      (Inr (lit ''[TTS error] boom''),
       \<lparr>world = 0, trace = [Store_upload upload, Whisper (lit ''/tmp/tmpk3.wav'')]\<rparr>)"
  "detect_language echo (lit ''[TTS error] boom'')
       \<lparr>world = 0, trace = [Store_upload upload, Whisper (lit ''/tmp/tmpk3.wav'')]\<rparr> =
      (lit ''en'',
       \<lparr>world = 0, trace = [Store_upload upload, Whisper (lit ''/tmp/tmpk3.wav''),
                              Langdetect (lit ''[TTS error] boom'')]\<rparr>)"
  by (simp_all add: echo_def scripted_store scripted_transcribe scripted_detect start_def
      strip_echo lit_eq_Nil_iff)

lemma echo_speak:
  "text_to_speech echo (lit ''[TTS error] boom'') (lit ''en'') s =
     (Inr (lit ''[TTS error] boom''),
      \<lparr>world = world s,
       trace = trace s @ [Gtts (lit ''[TTS error] boom'') (lit ''en'')]\<rparr>)"
  by (simp add: echo_def scripted_speak_raises except_Exception_def sentinel_def
      TTS_ERROR_def lit_def)

lemma hello_skip:
  "pipeline_translate hello (Some upload) (lit ''en'') start =
     (Inr (lit ''Hello world'', Some (lit ''en''), Some (lit ''Hello world''),
           Some (lit ''/tmp/tmpq7.mp3'')),
      \<lparr>world = 0,
       trace = [Store_upload upload, Whisper (lit ''/tmp/tmpk3.wav''),
                Langdetect (lit ''Hello world''),
                Gtts (lit ''Hello world'') (lit ''en'')]\<rparr>)"
proof -
  have r: "resolve_target (lit ''en'') (lit ''en'') = lit ''en''"
    by (simp add: resolve_target_def lit_eq_iff)
  have sp: "text_to_speech hello (lit ''Hello world'') (lit ''en'') s =
     (Inr (lit ''/tmp/tmpq7.mp3''),
      \<lparr>world = world s, trace = trace s @ [Gtts (lit ''Hello world'') (lit ''en'')]\<rparr>)"
    for s by (simp add: hello_def scripted_speak)
  show ?thesis
    by (simp add: pipeline_translate_def hello_stages TRANSCRIPTION_ERROR_def
        hello_not_sentinel r translate_and_speak_def TRANSLATION_ERROR_def
        sp TTS_ERROR_def mp3_not_sentinel)
qed

section \<open>The claims\<close>

subsection \<open>Target resolution\<close>

text \<open>
  C1. An invocation with the hint \<open>"auto"\<close> that reaches line 88 (the upload was
  stored, the transcriber returned a transcript that is not a transcription sentinel, the
  detector answered \<open>detected\<close>) resolves the target to \<open>"ur"\<close> when \<open>detected\<close> is
  \<open>"en"\<close> and to \<open>"en"\<close> for every other \<open>detected\<close>, \<open>"unknown"\<close> included: the
  rest of the pipeline runs with that target, and the translator is invoked with it.
\<close>

theorem auto_target_resolution:
  assumes "perform (Store_upload data) (store_upload env data) s = (Inr tmp_path, s1)"
    and "transcribe_audio env tmp_path s1 = (Inr transcribed, s2)"
    and "\<not> startswith transcribed (lit ''[Transcription error]'')"
    and "detect_language env transcribed s2 = (detected, s3)"
    and "target = (if detected = lit ''en'' then lit ''ur'' else lit ''en'')"
  shows "resolve_target (lit ''auto'') detected = target \<and>
         pipeline_translate env (Some data) (lit ''auto'') s =
           translate_and_speak env transcribed detected target s3 \<and>
         Translator_invoked transcribed target
           \<in> set (trace (snd (pipeline_translate env (Some data) (lit ''auto'') s)))"
proof -
  have r: "resolve_target (lit ''auto'') detected = target"
    using assms(5) by (simp add: resolve_target_def)
  have p: "pipeline_translate env (Some data) (lit ''auto'') s =
           translate_and_speak env transcribed detected target s3"
    using assms(1-4) r by (simp add: pipeline_translate_def TRANSCRIPTION_ERROR_def)
  have ne: "target \<noteq> detected"
    using assms(5) by (auto simp add: lit_eq_iff)
  obtain x s4 where tt: "translate_text env transcribed target s3 = (x, s4)"
    by (cases "translate_text env transcribed target s3")
  then obtain es where es: "trace s4 = trace s3 @ Translator_invoked transcribed target # es"
    using translate_text_trace by blast
  have later: "Translator_invoked transcribed target \<in> set (trace s5)"
    if "text_to_speech env y target s4 = (a, s5)" for y a s5
    using text_to_speech_trace [OF that] es by simp
  have "Translator_invoked transcribed target
          \<in> set (trace (snd (translate_and_speak env transcribed detected target s3)))"
  proof (cases x)
    case (Inl e)
    with ne tt es show ?thesis by (simp add: translate_and_speak_def)
  next
    case (Inr y)
    obtain a s5 where tts: "text_to_speech env y target s4 = (a, s5)"
      by (cases "text_to_speech env y target s4")
    from later [OF tts] ne tt es Inr tts show ?thesis
      by (cases a) (simp_all add: translate_and_speak_def)
  qed
  with r p show ?thesis by simp
qed

theorem auto_target_resolution_witness:
  "resolve_target (lit ''auto'') (lit ''en'') = lit ''ur'' \<and>
   Translator_invoked (lit ''Hello world'') (lit ''ur'')
     \<in> set (trace (snd (pipeline_translate hello (Some upload) (lit ''auto'') start)))"
proof -
  have h: "lit ''ur'' = (if lit ''en'' = lit ''en'' then lit ''ur'' else lit ''en'')"
    by simp
  from auto_target_resolution
    [OF hello_stages(1) hello_stages(2) hello_not_sentinel(1) hello_stages(3) h]
  show ?thesis by blast
qed

subsection \<open>The translator's stability guard\<close>




subsection \<open>Skipping the translation\<close>

text \<open>
  C3. When the resolved target equals the detected language, the orchestrator does not
  invoke the translator (no entry into \<open>translate_text\<close>, no remote translation, no
  sleep is added to the trace: after detection the only event left is the synthesis, when
  it runs) and the translated-text field of the result is the transcript. The
  orchestrator returns that result unless the synthesiser raises an exception that is not
  an \<open>Exception\<close>.
\<close>

theorem translation_skipped_when_target_is_detected:
  assumes "perform (Store_upload data) (store_upload env data) s = (Inr tmp_path, s1)"
    and "transcribe_audio env tmp_path s1 = (Inr transcribed, s2)"
    and "\<not> startswith transcribed (lit ''[Transcription error]'')"
    and "detect_language env transcribed s2 = (detected, s3)"
    and "resolve_target target_lang_hint detected = detected"
  shows "\<exists>s4.
           snd (pipeline_translate env (Some data) target_lang_hint s) = s4 \<and>
           ((\<exists>audio_output.
               fst (pipeline_translate env (Some data) target_lang_hint s) =
                 Inr (transcribed, Some detected, Some transcribed, audio_output)) \<or>
            (\<exists>m. fst (pipeline_translate env (Some data) target_lang_hint s) =
                    Inl (BaseException m) \<and>
                  text_to_speech env transcribed detected s3 = (Inl (BaseException m), s4))) \<and>
           trace s4 =
             trace s @ [Store_upload data, Whisper tmp_path, Langdetect transcribed] @
               (if startswith transcribed (lit ''[Translation error]'') then []
                else [Gtts transcribed detected]) \<and>
           filter translator_event (trace s4) = filter translator_event (trace s)"
proof -
  have t3: "trace s3 = trace s @ [Store_upload data, Whisper tmp_path, Langdetect transcribed]"
    using assms(1,2,4)
    by (simp add: perform_trace transcribe_audio_trace detect_language_trace)
  have p: "pipeline_translate env (Some data) target_lang_hint s =
             translate_and_speak env transcribed detected detected s3"
    using assms by (simp add: pipeline_translate_def TRANSCRIPTION_ERROR_def)
  show ?thesis
  proof (cases "startswith transcribed TRANSLATION_ERROR")
    case True
    with t3 show ?thesis
      by (simp add: p translate_and_speak_def TRANSLATION_ERROR_def)
  next
    case False
    obtain a s4 where tts: "text_to_speech env transcribed detected s3 = (a, s4)"
      by (cases "text_to_speech env transcribed detected s3")
    then have t4: "trace s4 = trace s3 @ [Gtts transcribed detected]"
      by (rule text_to_speech_trace)
    show ?thesis
    proof (cases a)
      case (Inl e)
      with tts have "\<exists>m. e = BaseException m"
        by (auto simp add: text_to_speech_def perform_def
            split: prod.splits sum.splits dest: except_Exception_Inl)
      with Inl tts t3 t4 False show ?thesis
        by (auto simp add: p translate_and_speak_def TRANSLATION_ERROR_def)
    next
      case (Inr audio)
      with tts t3 t4 False show ?thesis
        by (simp add: p translate_and_speak_def TRANSLATION_ERROR_def)
    qed
  qed
qed

theorem translation_skipped_witness:
  "(\<exists>s4.
     snd (pipeline_translate hello (Some upload) (lit ''en'') start) = s4 \<and>
     ((\<exists>audio_output.
         fst (pipeline_translate hello (Some upload) (lit ''en'') start) =
           Inr (lit ''Hello world'', Some (lit ''en''), Some (lit ''Hello world''),
                audio_output)) \<or>
      (\<exists>m. fst (pipeline_translate hello (Some upload) (lit ''en'') start) =
              Inl (BaseException m) \<and>
            text_to_speech hello (lit ''Hello world'') (lit ''en'')
              \<lparr>world = 0, trace = [Store_upload upload, Whisper (lit ''/tmp/tmpk3.wav''),
                                     Langdetect (lit ''Hello world'')]\<rparr> =
              (Inl (BaseException m), s4))) \<and>
     trace s4 =
       trace start @ [Store_upload upload, Whisper (lit ''/tmp/tmpk3.wav''),
                      Langdetect (lit ''Hello world'')] @
         (if startswith (lit ''Hello world'') (lit ''[Translation error]'') then []
          else [Gtts (lit ''Hello world'') (lit ''en'')]) \<and>
     filter translator_event (trace s4) = filter translator_event (trace start)) \<and>
   pipeline_translate hello (Some upload) (lit ''en'') start =
     (Inr (lit ''Hello world'', Some (lit ''en''), Some (lit ''Hello world''),
           Some (lit ''/tmp/tmpq7.mp3'')),
      \<lparr>world = 0,
       trace = [Store_upload upload, Whisper (lit ''/tmp/tmpk3.wav''),
                Langdetect (lit ''Hello world''),
                Gtts (lit ''Hello world'') (lit ''en'')]\<rparr>)"
proof -
  have h: "resolve_target (lit ''en'') (lit ''en'') = lit ''en''"
    by (simp add: resolve_target_def lit_eq_iff)
  from translation_skipped_when_target_is_detected
    [OF hello_stages(1) hello_stages(2) hello_not_sentinel(1) hello_stages(3) h] hello_skip
  show ?thesis by blast
qed

subsection \<open>Empty input to the translator\<close>

text \<open>
  C4. On a text that is empty or whitespace only, \<open>translate_text\<close> returns the sentinel
  \<open>"[Translation error] Empty input text"\<close> at once: the world is untouched and the
  trace gains nothing but the entry into \<open>translate_text\<close>, so no remote translation
  was requested.
\<close>

theorem empty_input_sentinel:
  assumes "list_all isspace text"
  shows "translate_text env text dest_lang s =
           (Inr (lit ''[Translation error] Empty input text''),
            \<lparr>world = world s, trace = trace s @ [Translator_invoked text dest_lang]\<rparr>)"
  using assms
  by (simp add: translate_text_def strip_eq_Nil_iff EMPTY_INPUT_def log_event_def)

theorem empty_input_sentinel_witness:
  "list_all isspace [32, 9, 10] \<and>
   translate_text hello [32, 9, 10] (lit ''en'') start =
     (Inr (lit ''[Translation error] Empty input text''),
      \<lparr>world = 0, trace = [Translator_invoked [32, 9, 10] (lit ''en'')]\<rparr>)"
proof -
  have h: "list_all isspace [32, 9, 10]" by (simp add: isspace_def)
  have s: "world start = 0" "trace start = []" by (simp_all add: start_def)
  from empty_input_sentinel [OF h, of hello "lit ''en''" start] h s show ?thesis by simp
qed

subsection \<open>Transcription failure\<close>

text \<open>
  C5. When the transcriber's result starts with \<open>"[Transcription error]"\<close>, the
  orchestrator returns that very string first and \<open>None\<close> in the three other places, and
  stops there: the final state is the one the transcriber left.
\<close>

theorem transcription_failure_short_circuit:
  assumes "perform (Store_upload data) (store_upload env data) s = (Inr tmp_path, s1)"
    and "transcribe_audio env tmp_path s1 = (Inr transcribed, s2)"
    and "startswith transcribed (lit ''[Transcription error]'')"
  shows "pipeline_translate env (Some data) target_lang_hint s =
           (Inr (transcribed, None, None, None), s2)"
  using assms by (simp add: pipeline_translate_def TRANSCRIPTION_ERROR_def)

theorem transcription_failure_short_circuit_witness:
  "pipeline_translate offline (Some upload) (lit ''auto'') start =
     (Inr (lit ''[Transcription error] Connection error.'', None, None, None),
      \<lparr>world = 0, trace = [Store_upload upload, Whisper (lit ''/tmp/tmpk3.wav'')]\<rparr>)"
proof -
  have h1: "perform (Store_upload upload) (store_upload offline upload) start =
      (Inr (lit ''/tmp/tmpk3.wav''), \<lparr>world = 0, trace = [Store_upload upload]\<rparr>)"
    by (simp add: offline_def scripted_store start_def)
  have h2: "transcribe_audio offline (lit ''/tmp/tmpk3.wav'')
              \<lparr>world = 0, trace = [Store_upload upload]\<rparr> =
      (Inr (lit ''[Transcription error] Connection error.''),
       \<lparr>world = 0, trace = [Store_upload upload, Whisper (lit ''/tmp/tmpk3.wav'')]\<rparr>)"
    by (simp add: offline_def scripted_transcribe_raises except_Exception_def sentinel_def
        TRANSCRIPTION_ERROR_def lit_def)
  have h3: "startswith (lit ''[Transcription error] Connection error.'')
              (lit ''[Transcription error]'')"
    by (simp add: startswith_def lit_def)
  show ?thesis by (rule transcription_failure_short_circuit [OF h1 h2 h3])
qed

subsection \<open>Synthesis failure\<close>

text \<open>
  C6, as the claim states it, fails in its last clause: the speaker says
  \<open>[TTS error] boom\<close>, the hint is the detected language, so the translated text is the
  transcript, and the synthesiser raises with the message \<open>boom\<close>. The synthesis error
  text is then the first and the third element of the returned tuple.
\<close>

theorem synthesis_failure_counterexample:
  "text_to_speech echo (lit ''[TTS error] boom'') (lit ''en'')
      \<lparr>world = 0,
       trace = [Store_upload upload, Whisper (lit ''/tmp/tmpk3.wav''),
                Langdetect (lit ''[TTS error] boom'')]\<rparr> =
     (Inr (lit ''[TTS error] boom''),
      \<lparr>world = 0,
       trace = [Store_upload upload, Whisper (lit ''/tmp/tmpk3.wav''),
                Langdetect (lit ''[TTS error] boom''),
                Gtts (lit ''[TTS error] boom'') (lit ''en'')]\<rparr>) \<and>
   startswith (lit ''[TTS error] boom'') (lit ''[TTS error]'') \<and>
   pipeline_translate echo (Some upload) (lit ''en'') start =
     (Inr (lit ''[TTS error] boom'', Some (lit ''en''), Some (lit ''[TTS error] boom''), None),
      \<lparr>world = 0,
       trace = [Store_upload upload, Whisper (lit ''/tmp/tmpk3.wav''),
                Langdetect (lit ''[TTS error] boom''),
                Gtts (lit ''[TTS error] boom'') (lit ''en'')]\<rparr>) \<and>
   in_tuple (lit ''[TTS error] boom'')
     (lit ''[TTS error] boom'', Some (lit ''en''), Some (lit ''[TTS error] boom''), None)"
proof -
  have a: "startswith (lit ''[TTS error] boom'') (lit ''[TTS error]'')"
    by (simp add: startswith_def lit_def)
  have b: "\<not> startswith (lit ''[TTS error] boom'') (lit ''[Transcription error]'')"
    "\<not> startswith (lit ''[TTS error] boom'') (lit ''[Translation error]'')"
    by (simp_all add: startswith_def lit_def)
  have r: "resolve_target (lit ''en'') (lit ''en'') = lit ''en''"
    by (simp add: resolve_target_def lit_eq_iff)
  have p: "pipeline_translate echo (Some upload) (lit ''en'') start =
     (Inr (lit ''[TTS error] boom'', Some (lit ''en''), Some (lit ''[TTS error] boom''), None),
      \<lparr>world = 0,
       trace = [Store_upload upload, Whisper (lit ''/tmp/tmpk3.wav''),
                Langdetect (lit ''[TTS error] boom''),
                Gtts (lit ''[TTS error] boom'') (lit ''en'')]\<rparr>)"
    using a b
    by (simp add: pipeline_translate_def echo_stages TRANSCRIPTION_ERROR_def r
        translate_and_speak_def TRANSLATION_ERROR_def echo_speak TTS_ERROR_def)
  show ?thesis using a p by (simp add: echo_speak in_tuple_def)
qed

text \<open>
  C6, amended. When the synthesiser returns a string that starts with \<open>"[TTS error]"\<close>,
  the orchestrator returns the transcript, the detected language and the translated text
  as the earlier stages produced them, with \<open>None\<close> for the audio path. The error text
  is not carried into the tuple: it is an element of the tuple only when the transcript,
  the detected language or the translated text is that same string, and whatever
  \<open>Exception\<close> any synthesiser raises at that point, the returned tuple is this same one.
\<close>

theorem synthesis_failure_is_discarded:
  assumes "perform (Store_upload data) (store_upload env data) s = (Inr tmp_path, s1)"
    and "transcribe_audio env tmp_path s1 = (Inr transcribed, s2)"
    and "\<not> startswith transcribed (lit ''[Transcription error]'')"
    and "detect_language env transcribed s2 = (detected, s3)"
    and "target = resolve_target target_lang_hint detected"
    and "(if target \<noteq> detected then translate_text env transcribed target s3
          else (Inr transcribed, s3)) = (Inr translated, s4)"
    and "\<not> startswith translated (lit ''[Translation error]'')"
    and "text_to_speech env translated target s4 = (Inr audio_output, s5)"
    and "startswith audio_output (lit ''[TTS error]'')"
  shows "pipeline_translate env (Some data) target_lang_hint s =
           (Inr (transcribed, Some detected, Some translated, None), s5) \<and>
         in_tuple audio_output (transcribed, Some detected, Some translated, None) =
           (audio_output = transcribed \<or> audio_output = detected \<or>
            audio_output = translated) \<and>
         (\<forall>g m w. g translated target (world s4) = (Inl (Exception m), w) \<longrightarrow>
            fst (pipeline_translate (env\<lparr>gtts := g\<rparr>) (Some data) target_lang_hint s) =
              Inr (transcribed, Some detected, Some translated, None))"
proof -
  have "translate_and_speak env transcribed detected target s3 =
          (Inr (transcribed, Some detected, Some translated, None), s5)"
    unfolding translate_and_speak_def TRANSLATION_ERROR_def TTS_ERROR_def
    using assms(6-9) by simp
  with assms(1-5) have here: "pipeline_translate env (Some data) target_lang_hint s =
           (Inr (transcribed, Some detected, Some translated, None), s5)"
    by (simp add: pipeline_translate_def TRANSCRIPTION_ERROR_def)
  have elem: "in_tuple audio_output (transcribed, Some detected, Some translated, None) =
           (audio_output = transcribed \<or> audio_output = detected \<or>
            audio_output = translated)"
    by (auto simp add: in_tuple_def)
  have there: "fst (pipeline_translate (env\<lparr>gtts := g\<rparr>) (Some data) target_lang_hint s) =
              Inr (transcribed, Some detected, Some translated, None)"
    if g: "g translated target (world s4) = (Inl (Exception m), w)" for g m w
  proof -
    have "text_to_speech (env\<lparr>gtts := g\<rparr>) translated target s4 =
            (Inr (sentinel TTS_ERROR (Exception m)),
             \<lparr>world = w, trace = trace s4 @ [Gtts translated target]\<rparr>)"
      using g by (simp add: text_to_speech_def perform_def except_Exception_def)
    moreover have "startswith (sentinel TTS_ERROR (Exception m)) TTS_ERROR"
      by (simp add: sentinel_def startswith_def)
    ultimately have "fst (translate_and_speak (env\<lparr>gtts := g\<rparr>) transcribed detected target s3) =
          Inr (transcribed, Some detected, Some translated, None)"
      unfolding translate_and_speak_def other_gtts TRANSLATION_ERROR_def
      using assms(6,7) by simp
    with assms(1-5) show ?thesis
      by (simp add: pipeline_translate_def other_gtts TRANSCRIPTION_ERROR_def)
  qed
  from here elem there show ?thesis by blast
qed

theorem synthesis_failure_is_discarded_witness:
  "text_to_speech mute urdu (lit ''ur'')
      \<lparr>world = 1,
       trace = [Store_upload upload, Whisper (lit ''/tmp/tmpk3.wav''),
                Langdetect (lit ''Hello world''),
                Translator_invoked (lit ''Hello world'') (lit ''ur''),
                Google_translate (lit ''ur'') (lit ''Hello world'')]\<rparr> =
     (Inr (lit ''[TTS error] Failed to connect''),
      \<lparr>world = 1,
       trace = [Store_upload upload, Whisper (lit ''/tmp/tmpk3.wav''),
                Langdetect (lit ''Hello world''),
                Translator_invoked (lit ''Hello world'') (lit ''ur''),
                Google_translate (lit ''ur'') (lit ''Hello world''),
                Gtts urdu (lit ''ur'')]\<rparr>) \<and>
   pipeline_translate mute (Some upload) (lit ''auto'') start =
     (Inr (lit ''Hello world'', Some (lit ''en''), Some urdu, None),
      \<lparr>world = 1,
       trace = [Store_upload upload, Whisper (lit ''/tmp/tmpk3.wav''),
                Langdetect (lit ''Hello world''),
                Translator_invoked (lit ''Hello world'') (lit ''ur''),
                Google_translate (lit ''ur'') (lit ''Hello world''),
                Gtts urdu (lit ''ur'')]\<rparr>) \<and>
   \<not> in_tuple (lit ''[TTS error] Failed to connect'')
       (lit ''Hello world'', Some (lit ''en''), Some urdu, None) \<and>
   fst (pipeline_translate
          (mute\<lparr>gtts := \<lambda>text lang w. (Inl (Exception (lit ''429 (Too Many Requests)'')), w)\<rparr>)
          (Some upload) (lit ''auto'') start) =
     Inr (lit ''Hello world'', Some (lit ''en''), Some urdu, None)"
proof -
  let ?s3 = "\<lparr>world = 0::nat,
             trace = [Store_upload upload, Whisper (lit ''/tmp/tmpk3.wav''),
                      Langdetect (lit ''Hello world'')]\<rparr>"
  let ?s4 = "\<lparr>world = 1::nat,
       trace = [Store_upload upload, Whisper (lit ''/tmp/tmpk3.wav''),
                Langdetect (lit ''Hello world''),
                Translator_invoked (lit ''Hello world'') (lit ''ur''),
                Google_translate (lit ''ur'') (lit ''Hello world'')]\<rparr>"
  let ?s5 = "\<lparr>world = 1::nat,
       trace = [Store_upload upload, Whisper (lit ''/tmp/tmpk3.wav''),
                Langdetect (lit ''Hello world''),
                Translator_invoked (lit ''Hello world'') (lit ''ur''),
                Google_translate (lit ''ur'') (lit ''Hello world''),
                Gtts urdu (lit ''ur'')]\<rparr>"
  let ?g = "\<lambda>(text::str) (lang::str) (w::nat).
              (Inl (Exception (lit ''429 (Too Many Requests)'')) :: exn + str, w)"
  have h5: "lit ''ur'' = resolve_target (lit ''auto'') (lit ''en'')"
    by (simp add: resolve_target_def)
  have t: "translate_text mute (lit ''Hello world'') (lit ''ur'') ?s3 = (Inr urdu, ?s4)"
    by (simp add: mute_translate)
  have h6: "(if lit ''ur'' \<noteq> lit ''en''
             then translate_text mute (lit ''Hello world'') (lit ''ur'') ?s3
             else (Inr (lit ''Hello world''), ?s3)) = (Inr urdu, ?s4)"
    by (simp add: t lit_eq_iff)
  have h8: "text_to_speech mute urdu (lit ''ur'') ?s4 =
              (Inr (lit ''[TTS error] Failed to connect''), ?s5)"
    by (simp add: mute_def scripted_speak_raises except_Exception_def sentinel_def
        TTS_ERROR_def lit_def)
  have h9: "startswith (lit ''[TTS error] Failed to connect'') (lit ''[TTS error]'')"
    by (simp add: startswith_def lit_def)
  have d: "lit ''[TTS error] Failed to connect'' \<noteq> lit ''Hello world''"
    "lit ''[TTS error] Failed to connect'' \<noteq> lit ''en''"
    "lit ''[TTS error] Failed to connect'' \<noteq> urdu"
    by (simp_all add: lit_eq_iff) (simp add: lit_def urdu_def)
  note main = synthesis_failure_is_discarded
    [OF mute_stages(1) mute_stages(2) hello_not_sentinel(1) mute_stages(3) h5 h6
        urdu_not_sentinel h8 h9]
  from main have a: "pipeline_translate mute (Some upload) (lit ''auto'') start =
     (Inr (lit ''Hello world'', Some (lit ''en''), Some urdu, None), ?s5)"
    by (rule conjunct1)
  from main d have c: "\<not> in_tuple (lit ''[TTS error] Failed to connect'')
       (lit ''Hello world'', Some (lit ''en''), Some urdu, None)"
    by simp
  from main have every: "\<forall>g m w. g urdu (lit ''ur'') (world ?s4) = (Inl (Exception m), w) \<longrightarrow>
            fst (pipeline_translate (mute\<lparr>gtts := g\<rparr>) (Some upload) (lit ''auto'') start) =
              Inr (lit ''Hello world'', Some (lit ''en''), Some urdu, None)"
    by simp
  from every [rule_format, of ?g "lit ''429 (Too Many Requests)''" 1]
  have b: "fst (pipeline_translate (mute\<lparr>gtts := ?g\<rparr>)
          (Some upload) (lit ''auto'') start) =
     Inr (lit ''Hello world'', Some (lit ''en''), Some urdu, None)"
    by simp
  from h8 a b c show ?thesis by simp
qed

subsection \<open>No input audio\<close>

text \<open>
  C7. Without input audio the orchestrator returns at once the error message
  \<open>"[Error] No audio input"\<close> with \<open>None\<close> in the three other places; the state is
  unchanged, so no stage has run.
\<close>

theorem no_audio_guard:
  "pipeline_translate env None target_lang_hint s =
     (Inr (lit ''[Error] No audio input'', None, None, None), s)"
  by (simp add: pipeline_translate_def NO_AUDIO_def)

theorem no_audio_guard_witness:
  "pipeline_translate hello None (lit ''auto'') start =
     (Inr (lit ''[Error] No audio input'', None, None, None), start)"
  by (rule no_audio_guard)

subsection \<open>The transcriber\<close>

text \<open>
  C8, as the claim states it, fails: line 32 catches \<open>Exception\<close> only, so when the
  speech service raises an exception that is not an \<open>Exception\<close> the transcriber returns
  no sentinel; the exception leaves it.
\<close>

theorem transcribe_audio_counterexample:
  "whisper cancelled (lit ''/tmp/tmpk3.wav'') (world start) =
     (Inl (BaseException (lit ''cancelled'')), 0) \<and>
   transcribe_audio cancelled (lit ''/tmp/tmpk3.wav'') start =
     (Inl (BaseException (lit ''cancelled'')),
      \<lparr>world = 0, trace = [Whisper (lit ''/tmp/tmpk3.wav'')]\<rparr>) \<and>
   \<not> (\<exists>returned.
        fst (transcribe_audio cancelled (lit ''/tmp/tmpk3.wav'') start) = Inr returned)"
  by (simp add: cancelled_def scripted_def start_def transcribe_audio_def perform_def
      except_Exception_def)

text \<open>
  C8, amended. When the speech service answers, \<open>transcribe_audio\<close> returns the answer
  with the whitespace at both ends removed (what it removes is whitespace, and what is
  left has none at either end). When the service raises an \<open>Exception\<close>, it returns the
  string \<open>"[Transcription error] "\<close> followed by the exception's message instead of
  propagating it. When the service raises an exception that is not an \<open>Exception\<close>, that
  exception propagates. In each case the trace gains the one call.
\<close>

theorem transcribe_audio_outcomes:
  assumes "whisper env audio_path (world s) = (outcome, w')"
  shows "(\<forall>text. outcome = Inr text \<longrightarrow>
            fst (transcribe_audio env audio_path s) = Inr (strip text) \<and>
            trimmed (strip text) \<and>
            (\<exists>a b. text = a @ strip text @ b \<and> list_all isspace a \<and> list_all isspace b)) \<and>
         (\<forall>m. outcome = Inl (Exception m) \<longrightarrow>
            fst (transcribe_audio env audio_path s) =
              Inr (lit ''[Transcription error] '' @ m)) \<and>
         (\<forall>m. outcome = Inl (BaseException m) \<longrightarrow>
            fst (transcribe_audio env audio_path s) = Inl (BaseException m)) \<and>
         snd (transcribe_audio env audio_path s) =
           \<lparr>world = w', trace = trace s @ [Whisper audio_path]\<rparr>"
proof (cases outcome)
  case (Inl e)
  with assms show ?thesis
    by (cases e)
      (simp_all add: transcribe_audio_def perform_def except_Exception_def sentinel_def
        TRANSCRIPTION_ERROR_def lit_def)
next
  case (Inr heard)
  with assms have "transcribe_audio env audio_path s =
      (Inr (strip heard), \<lparr>world = w', trace = trace s @ [Whisper audio_path]\<rparr>)"
    by (simp add: transcribe_audio_def perform_def)
  with Inr show ?thesis
    using trimmed_strip [of heard] strip_decomp [of heard] by simp
qed

theorem transcribe_audio_outcomes_witness:
  "fst (transcribe_audio hello (lit ''/tmp/tmpk3.wav'') start) = Inr (lit ''Hello world'') \<and>
   trimmed (lit ''Hello world'') \<and>
   fst (transcribe_audio offline (lit ''/tmp/tmpk3.wav'') start) =
     Inr (lit ''[Transcription error] '' @ lit ''Connection error.'') \<and>
   fst (transcribe_audio cancelled (lit ''/tmp/tmpk3.wav'') start) =
     Inl (BaseException (lit ''cancelled''))"
proof -
  have a: "whisper hello (lit ''/tmp/tmpk3.wav'') (world start) =
             (Inr (lit '' Hello world ''), 0)"
    by (simp add: hello_def scripted_def start_def)
  have b: "whisper offline (lit ''/tmp/tmpk3.wav'') (world start) =
             (Inl (Exception (lit ''Connection error.'')), 0)"
    by (simp add: offline_def scripted_def start_def)
  have c: "whisper cancelled (lit ''/tmp/tmpk3.wav'') (world start) =
             (Inl (BaseException (lit ''cancelled'')), 0)"
    by (simp add: cancelled_def scripted_def start_def)
  from transcribe_audio_outcomes [OF a] transcribe_audio_outcomes [OF b]
    transcribe_audio_outcomes [OF c] strip_heard
  show ?thesis by simp
qed

subsection \<open>A returned audio path\<close>

text \<open>
  C9. Whenever the returned tuple has an audio path, the transcript does not start with
  \<open>"[Transcription error]"\<close>, the translated text is present and does not start with
  \<open>"[Translation error]"\<close>, and the path does not start with \<open>"[TTS error]"\<close>.
\<close>

theorem audio_path_implies_no_sentinel:
  assumes "pipeline_translate env audio_file target_lang_hint s =
             (Inr (transcribed, detected, translated, Some audio_output), s')"
  shows "\<not> startswith transcribed (lit ''[Transcription error]'') \<and>
         (\<exists>text. translated = Some text \<and> \<not> startswith text (lit ''[Translation error]'')) \<and>
         \<not> startswith audio_output (lit ''[TTS error]'')"
  using assms
  by (auto simp add: pipeline_translate_def translate_and_speak_def
      TRANSCRIPTION_ERROR_def TRANSLATION_ERROR_def TTS_ERROR_def
      split: option.splits prod.splits sum.splits if_splits)

theorem audio_path_implies_no_sentinel_witness:
  "\<not> startswith (lit ''Hello world'') (lit ''[Transcription error]'') \<and>
   (\<exists>text. Some urdu = Some text \<and> \<not> startswith text (lit ''[Translation error]'')) \<and>
   \<not> startswith (lit ''/tmp/tmpq7.mp3'') (lit ''[TTS error]'')"
  by (rule audio_path_implies_no_sentinel [OF hello_pipeline])

subsection \<open>A transcript of whitespace only\<close>

text \<open>
  C10. When the speech service hears only whitespace and the hint is \<open>"auto"\<close>, the
  transcript is the empty string; with a detector that raises on the empty string (as
  \<open>langdetect\<close> does on a text without features) the detected language is \<open>"unknown"\<close>,
  the target resolves to \<open>"en"\<close>, the translator answers
  \<open>"[Translation error] Empty input text"\<close> without a remote call, and the orchestrator
  takes that for a translation failure: it returns a \<open>None\<close> audio path and never calls
  the synthesiser.
\<close>

theorem whitespace_transcript_is_translation_failure:
  assumes "perform (Store_upload data) (store_upload env data) s = (Inr tmp_path, s1)"
    and "whisper env tmp_path (world s1) = (Inr heard, w2)"
    and "list_all isspace heard"
    and "langdetect env [] w2 = (Inl e, w3)"
  shows "pipeline_translate env (Some data) (lit ''auto'') s =
           (Inr ([], Some (lit ''unknown''),
                 Some (lit ''[Translation error] Empty input text''), None),
            \<lparr>world = w3,
             trace = trace s @ [Store_upload data, Whisper tmp_path, Langdetect [],
                                Translator_invoked [] (lit ''en'')]\<rparr>)"
proof -
  have h: "strip heard = []" using assms(3) by (simp add: strip_eq_Nil_iff)
  have t1: "trace s1 = trace s @ [Store_upload data]"
    using assms(1) by (rule perform_trace)
  have a: "transcribe_audio env tmp_path s1 =
             (Inr [], \<lparr>world = w2, trace = trace s @ [Store_upload data, Whisper tmp_path]\<rparr>)"
    using assms(2) h t1 by (simp add: transcribe_audio_def perform_def)
  have b: "detect_language env []
             \<lparr>world = w2, trace = trace s @ [Store_upload data, Whisper tmp_path]\<rparr> =
           (lit ''unknown'',
            \<lparr>world = w3,
             trace = trace s @ [Store_upload data, Whisper tmp_path, Langdetect []]\<rparr>)"
    using assms(4) by (simp add: detect_language_def perform_def)
  have c: "resolve_target (lit ''auto'') (lit ''unknown'') = lit ''en''"
    by (simp add: resolve_target_def lit_eq_iff)
  have d: "translate_text env [] (lit ''en'')
             \<lparr>world = w3,
              trace = trace s @ [Store_upload data, Whisper tmp_path, Langdetect []]\<rparr> =
           (Inr EMPTY_INPUT,
            \<lparr>world = w3,
             trace = trace s @ [Store_upload data, Whisper tmp_path, Langdetect [],
                                Translator_invoked [] (lit ''en'')]\<rparr>)"
    by (simp add: translate_text_def strip_def log_event_def)
  have e: "startswith EMPTY_INPUT TRANSLATION_ERROR"
    by (simp add: EMPTY_INPUT_def TRANSLATION_ERROR_def startswith_def lit_def)
  have f: "\<not> startswith [] TRANSCRIPTION_ERROR"
    by (simp add: TRANSCRIPTION_ERROR_def startswith_def lit_def)
  have g: "lit ''en'' \<noteq> lit ''unknown''" by (simp add: lit_eq_iff)
  have "translate_and_speak env [] (lit ''unknown'') (lit ''en'')
             \<lparr>world = w3,
              trace = trace s @ [Store_upload data, Whisper tmp_path, Langdetect []]\<rparr> =
          (Inr ([], Some (lit ''unknown''), Some EMPTY_INPUT, None),
            \<lparr>world = w3,
             trace = trace s @ [Store_upload data, Whisper tmp_path, Langdetect [],
                                Translator_invoked [] (lit ''en'')]\<rparr>)"
    using d e g by (simp add: translate_and_speak_def)
  with assms(1) a b c f show ?thesis
    by (simp add: pipeline_translate_def EMPTY_INPUT_def)
qed

theorem whitespace_transcript_witness:
  "list_all isspace [32, 9, 10] \<and>
   pipeline_translate silence (Some upload) (lit ''auto'') start =
     (Inr ([], Some (lit ''unknown''),
           Some (lit ''[Translation error] Empty input text''), None),
      \<lparr>world = 0,
       trace = trace start @ [Store_upload upload, Whisper (lit ''/tmp/tmpk3.wav''),
                Langdetect [], Translator_invoked [] (lit ''en'')]\<rparr>)"
proof -
  have h1: "perform (Store_upload upload) (store_upload silence upload) start =
      (Inr (lit ''/tmp/tmpk3.wav''), \<lparr>world = 0, trace = [Store_upload upload]\<rparr>)"
    by (simp add: silence_def scripted_store start_def)
  have h2: "whisper silence (lit ''/tmp/tmpk3.wav'')
              (world \<lparr>world = 0::nat, trace = [Store_upload upload]\<rparr>) =
            (Inr [32, 9, 10], 0)"
    by (simp add: silence_def scripted_def)
  have h3: "list_all isspace [32, 9, 10]" by (simp add: isspace_def)
  have h4: "langdetect silence [] 0 = (Inl (Exception (lit ''No features in text.'')), 0)"
    by (simp add: silence_def scripted_def)
  from whitespace_transcript_is_translation_failure [OF h1 h2 h3 h4] h3
  show ?thesis by simp
qed

end
